theory Spec2Isabelle
  imports Main
begin

section \<open>Python values\<close>

text \<open>
  A Python \<open>str\<close> is a sequence of Unicode code points; slicing (\<open>s[:80]\<close>), \<open>len\<close>
  and \<open>strip\<close> count code points, not bytes. A string is therefore a list of code
  points, and \<open>ascii\<close> writes an ASCII literal. The file name separator of the
  exporters is EN DASH, code point 8211.
\<close>

type_synonym pystr = "nat list"

definition ascii :: "string \<Rightarrow> pystr" where
  "ascii cs = map of_char cs"

definition EN_DASH :: nat where
  "EN_DASH = 8211"

text \<open>\<open>str(n)\<close> of a Python \<open>int\<close>: decimal digits, a minus sign for a negative one.\<close>

fun str_nat :: "nat \<Rightarrow> pystr" where
  "str_nat n = (if n < 10 then [48 + n] else str_nat (n div 10) @ [48 + n mod 10])"

definition str_int :: "int \<Rightarrow> pystr" where
  "str_int i = (if i < 0 then 45 # str_nat (nat (- i)) else str_nat (nat i))"

text \<open>\<open>sep.join(xs)\<close>.\<close>

fun join :: "pystr \<Rightarrow> pystr list \<Rightarrow> pystr" where
  "join sep [] = []"
| "join sep [x] = x"
| "join sep (x # y # ys) = x @ sep @ join sep (y # ys)"

text \<open>
  What \<open>resp.json()\<close> returns: \<open>None\<close>, a bool, an int, a str, a list or a dict with
  string keys. JSON numbers with a fraction (Python floats) are left out of the model.
  A dict is an association list read by \<open>map_of\<close>.
\<close>

datatype jval =
    JNull
  | JBool bool
  | JInt int
  | JStr pystr
  | JList "jval list"
  | JDict "(pystr \<times> jval) list"

text \<open>\<open>d.get(key)\<close> and \<open>d.get(key, default)\<close> on a dict.\<close>

definition dict_get :: "(pystr \<times> jval) list \<Rightarrow> string \<Rightarrow> jval option" where
  "dict_get kvs k = map_of kvs (ascii k)"

definition dict_get_default :: "(pystr \<times> jval) list \<Rightarrow> string \<Rightarrow> jval \<Rightarrow> jval" where
  "dict_get_default kvs k d = (case dict_get kvs k of Some v \<Rightarrow> v | None \<Rightarrow> d)"

text \<open>Python truthiness (\<open>if x:\<close>) of a JSON value.\<close>

fun truthy :: "jval \<Rightarrow> bool" where
  "truthy JNull = False"
| "truthy (JBool b) = b"
| "truthy (JInt i) = (i \<noteq> 0)"
| "truthy (JStr s) = (s \<noteq> [])"
| "truthy (JList xs) = (xs \<noteq> [])"
| "truthy (JDict kvs) = (kvs \<noteq> [])"

section \<open>Exceptions\<close>

text \<open>
  The exceptions the scripts raise, catch or let through, by the classes their
  \<open>except\<close> clauses and \<open>isinstance\<close> tests tell apart. \<open>HTTPError\<close> carries the status
  of \<open>e.response\<close> (\<open>None\<close> when no response is attached). \<open>RequestValueError\<close> stands for
  the \<open>requests\<close> exceptions that are also \<open>ValueError\<close>s (\<open>InvalidURL\<close>, \<open>MissingSchema\<close>).
  \<open>ApiError code message\<close> is the \<open>RequestException\<close> that \<open>retry_request\<close> builds with
  the text "Instapaper API Error code: message".
\<close>

datatype exn =
    HTTPError "nat option"
  | ConnectionError
  | Timeout
  | RequestValueError
  | RequestException
  | ApiError jval jval
  | ValueError
  | TypeError
  | KeyError
  | AttributeError
  | OverflowError
  | RuntimeError
  | OtherException

fun is_RequestException :: "exn \<Rightarrow> bool" where
  "is_RequestException (HTTPError _) = True"
| "is_RequestException ConnectionError = True"
| "is_RequestException Timeout = True"
| "is_RequestException RequestValueError = True"
| "is_RequestException RequestException = True"
| "is_RequestException (ApiError _ _) = True"
| "is_RequestException _ = False"

fun is_ValueError :: "exn \<Rightarrow> bool" where
  "is_ValueError ValueError = True"
| "is_ValueError RequestValueError = True"
| "is_ValueError _ = False"

section \<open>The retry engine (export\_instapaper\_to\_obsidian.py)\<close>

definition MAX_LIMIT :: int where
  "MAX_LIMIT = 500"

definition MAX_RETRIES :: nat where
  "MAX_RETRIES = 5"

definition BACKOFF_FACTOR :: int where
  "BACKOFF_FACTOR = 2"

text \<open>
  What one invocation of the wrapped call \<open>fn\<close> does: it raises, or it returns a
  response with a status code and a body that is JSON or is not.
\<close>

datatype body = NotJson | Json jval

datatype outcome = Raised exn | Response nat body

text \<open>\<open>resp.raise_for_status()\<close> raises \<open>HTTPError\<close> for a 4xx or 5xx status.\<close>

definition raise_for_status :: "nat \<Rightarrow> exn option" where
  "raise_for_status st = (if 400 \<le> st \<and> st < 600 then Some (HTTPError (Some st)) else None)"

text \<open>\<open>isinstance(data, dict) and data.get('type') == 'error'\<close>.\<close>

fun is_api_error :: "jval \<Rightarrow> bool" where
  "is_api_error (JDict kvs) = (dict_get kvs ''type'' = Some (JStr (ascii ''error'')))"
| "is_api_error _ = False"

fun api_error_of :: "jval \<Rightarrow> exn" where
  "api_error_of (JDict kvs) =
     ApiError (dict_get_default kvs ''error_code'' (JStr (ascii ''N/A'')))
              (dict_get_default kvs ''message'' (JStr (ascii ''No message'')))"
| "api_error_of _ = RequestException"

text \<open>
  The body of the \<open>try\<close> block of one attempt: the parsed data, or the exception
  raised. A body that does not parse raises the synthetic \<open>ValueError\<close>.
\<close>

fun attempt_once :: "outcome \<Rightarrow> exn + jval" where
  "attempt_once (Raised e) = Inl e"
| "attempt_once (Response st b) =
     (case raise_for_status st of
        Some e \<Rightarrow> Inl e
      | None \<Rightarrow>
          (case b of
             NotJson \<Rightarrow> Inl ValueError
           | Json data \<Rightarrow> if is_api_error data then Inl (api_error_of data) else Inr data))"

text \<open>\<open>except (requests.exceptions.RequestException, ValueError) as e\<close>.\<close>

definition caught :: "exn \<Rightarrow> bool" where
  "caught e = (is_RequestException e \<or> is_ValueError e)"

text \<open>
  The handler's decision. The first test of the source (\<open>last_error is e\<close> and the
  message holds "Instapaper API Error") is true of the exception built in the
  \<open>try\<close> block and of no other.
\<close>

fun should_retry :: "exn \<Rightarrow> bool" where
  "should_retry (ApiError _ _) = False"
| "should_retry (HTTPError (Some st)) = (st = 503)"
| "should_retry ConnectionError = True"
| "should_retry Timeout = True"
| "should_retry ValueError = True"
| "should_retry RequestValueError = True"
| "should_retry _ = False"

text \<open>
  The trace of an engine run: each invocation of the wrapped call with its attempt
  number, each \<open>time.sleep(delay)\<close> with its delay.
\<close>

datatype event = Call nat | Sleep int

fun calls :: "event list \<Rightarrow> nat list" where
  "calls [] = []"
| "calls (Call a # es) = a # calls es"
| "calls (Sleep d # es) = calls es"

fun sleeps :: "event list \<Rightarrow> int list" where
  "sleeps [] = []"
| "sleeps (Call a # es) = sleeps es"
| "sleeps (Sleep d # es) = d # sleeps es"

text \<open>
  The loop \<open>for attempt in range(1, MAX_RETRIES+1)\<close> with \<open>remaining\<close> iterations left;
  \<open>fn attempt\<close> is what the wrapped call does at that attempt. After the loop the
  source raises \<open>last_error or RuntimeError\<close>.
\<close>

fun retry_attempts ::
  "(nat \<Rightarrow> outcome) \<Rightarrow> nat \<Rightarrow> nat \<Rightarrow> int \<Rightarrow> exn option \<Rightarrow> (exn + jval) \<times> event list" where
  "retry_attempts fn 0 attempt delay last_error =
     (Inl (case last_error of Some e \<Rightarrow> e | None \<Rightarrow> RuntimeError), [])"
| "retry_attempts fn (Suc remaining) attempt delay last_error =
     (case attempt_once (fn attempt) of
        Inr data \<Rightarrow> (Inr data, [Call attempt])
      | Inl e \<Rightarrow>
          if \<not> caught e then (Inl e, [Call attempt])
          else if \<not> should_retry e \<or> attempt = MAX_RETRIES then (Inl e, [Call attempt])
          else (case retry_attempts fn remaining (attempt + 1) (delay * BACKOFF_FACTOR) (Some e) of
                  (r, tr) \<Rightarrow> (r, Call attempt # Sleep delay # tr)))"

definition retry_request :: "(nat \<Rightarrow> outcome) \<Rightarrow> (exn + jval) \<times> event list" where
  "retry_request fn = retry_attempts fn MAX_RETRIES 1 1 None"

text \<open>
  \<open>retry_request_html\<close>: the wrapped call is \<open>sess.post\<close>; a response with status 200
  returns its text, any other response raises (\<open>HTTPError\<close> for 4xx and 5xx, a plain
  \<open>RequestException\<close> otherwise). Only \<open>RequestException\<close>s are caught.
\<close>

datatype html_outcome = HRaised exn | HResponse nat pystr

fun html_attempt_once :: "html_outcome \<Rightarrow> exn + pystr" where
  "html_attempt_once (HRaised e) = Inl e"
| "html_attempt_once (HResponse st txt) =
     (if st = 200 then Inr txt
      else (case raise_for_status st of Some e \<Rightarrow> Inl e | None \<Rightarrow> Inl RequestException))"

fun should_retry_html :: "exn \<Rightarrow> bool" where
  "should_retry_html (HTTPError (Some st)) = (st = 503)"
| "should_retry_html ConnectionError = True"
| "should_retry_html Timeout = True"
| "should_retry_html _ = False"

fun retry_html_attempts ::
  "(nat \<Rightarrow> html_outcome) \<Rightarrow> nat \<Rightarrow> nat \<Rightarrow> int \<Rightarrow> exn option \<Rightarrow> (exn + pystr) \<times> event list" where
  "retry_html_attempts post 0 attempt delay last_error =
     (Inl (case last_error of Some e \<Rightarrow> e | None \<Rightarrow> RuntimeError), [])"
| "retry_html_attempts post (Suc remaining) attempt delay last_error =
     (case html_attempt_once (post attempt) of
        Inr txt \<Rightarrow> (Inr txt, [Call attempt])
      | Inl e \<Rightarrow>
          if \<not> is_RequestException e then (Inl e, [Call attempt])
          else if \<not> should_retry_html e \<or> attempt = MAX_RETRIES then (Inl e, [Call attempt])
          else (case retry_html_attempts post remaining (attempt + 1) (delay * BACKOFF_FACTOR) (Some e) of
                  (r, tr) \<Rightarrow> (r, Call attempt # Sleep delay # tr)))"

definition retry_request_html :: "(nat \<Rightarrow> html_outcome) \<Rightarrow> (exn + pystr) \<times> event list" where
  "retry_request_html post = retry_html_attempts post MAX_RETRIES 1 1 None"

text \<open>\<open>fetch_full_text\<close> of the exporter: the text, or the empty string on any exception.\<close>

definition fetch_full_text :: "(nat \<Rightarrow> html_outcome) \<Rightarrow> pystr" where
  "fetch_full_text post = (case fst (retry_request_html post) of Inr html \<Rightarrow> html | Inl e \<Rightarrow> [])"

section \<open>The list request and its response\<close>

text \<open>
  The form data of a \<open>/bookmarks/list\<close> request. \<open>have_param\<close> is \<open>None\<close> when the key
  \<open>"have"\<close> is not put in the payload. \<open>hint_size\<close> counts the identifiers of the
  comma-joined text.
\<close>

record payload =
  limit :: int
  folder_id :: jval
  have_param :: "pystr option"


text \<open>The payload that \<open>fetch_bookmarks\<close> of the exporter builds from \<open>have_list\<close>.\<close>

definition bookmarks_payload :: "int list \<Rightarrow> jval \<Rightarrow> payload" where
  "bookmarks_payload have_list fid =
     \<lparr> limit = MAX_LIMIT, folder_id = fid,
       have_param =
         (if have_list = [] then None else Some (join (ascii '','') (map str_int have_list))) \<rparr>"


text \<open>\<open>isinstance(item, dict) and item.get("type") == "bookmark"\<close>.\<close>

fun is_bookmark :: "jval \<Rightarrow> bool" where
  "is_bookmark (JDict kvs) = (dict_get kvs ''type'' = Some (JStr (ascii ''bookmark'')))"
| "is_bookmark _ = False"

text \<open>
  The response shapes: a dict gives its \<open>"bookmarks"\<close> entry (\<open>[]\<close> when missing or
  \<open>None\<close>), a list is filtered for bookmark records, anything else is a \<open>TypeError\<close>.
\<close>

fun normalize_bookmarks :: "jval \<Rightarrow> exn + jval" where
  "normalize_bookmarks (JDict kvs) =
     Inr (case dict_get kvs ''bookmarks'' of
            None \<Rightarrow> JList []
          | Some JNull \<Rightarrow> JList []
          | Some v \<Rightarrow> v)"
| "normalize_bookmarks (JList xs) = Inr (JList (filter is_bookmark xs))"
| "normalize_bookmarks _ = Inl TypeError"

definition fetch_bookmarks :: "(payload \<Rightarrow> nat \<Rightarrow> outcome) \<Rightarrow> int list \<Rightarrow> jval \<Rightarrow> exn + jval" where
  "fetch_bookmarks post have_list fid =
     (case fst (retry_request (post (bookmarks_payload have_list fid))) of
        Inl e \<Rightarrow> Inl e
      | Inr data \<Rightarrow> normalize_bookmarks data)"

text \<open>
  \<open>fetch_folders\<close>: the response must be a list; every dict of type \<open>"folder"\<close> gives a
  pair of its \<open>"title"\<close> and \<open>"folder_id"\<close> (a missing key is a \<open>KeyError\<close>).
\<close>

fun folder_pairs :: "jval list \<Rightarrow> exn + (jval \<times> jval) list" where
  "folder_pairs [] = Inr []"
| "folder_pairs (JDict kvs # fs) =
     (if dict_get kvs ''type'' = Some (JStr (ascii ''folder''))
      then (case (dict_get kvs ''title'', dict_get kvs ''folder_id'') of
              (Some t, Some i) \<Rightarrow>
                (case folder_pairs fs of Inl e \<Rightarrow> Inl e | Inr ps \<Rightarrow> Inr ((t, i) # ps))
            | _ \<Rightarrow> Inl KeyError)
      else folder_pairs fs)"
| "folder_pairs (_ # fs) = folder_pairs fs"

definition fetch_folders :: "(nat \<Rightarrow> outcome) \<Rightarrow> exn + (jval \<times> jval) list" where
  "fetch_folders post =
     (case fst (retry_request post) of
        Inl e \<Rightarrow> Inl e
      | Inr (JList fs) \<Rightarrow> folder_pairs fs
      | Inr _ \<Rightarrow> Inl TypeError)"

text \<open>
  \<open>user_folders.get(FOLDER_KEY, FOLDER_KEY)\<close>: in the dict built by the comprehension a
  later folder of the same title replaces an earlier one.
\<close>

definition resolve_folder :: "(jval \<times> jval) list \<Rightarrow> pystr \<Rightarrow> jval" where
  "resolve_folder folders k =
     (case map_of (rev folders) (JStr k) of Some i \<Rightarrow> i | None \<Rightarrow> JStr k)"

section \<open>Strings, integers and dates of the item transformer\<close>

text \<open>
  \<open>str.strip()\<close> removes the code points for which \<open>str.isspace\<close> holds from both ends.
\<close>

definition isspace :: "nat \<Rightarrow> bool" where
  "isspace c =
     ((9 \<le> c \<and> c \<le> 13) \<or> (28 \<le> c \<and> c \<le> 32) \<or> c = 133 \<or> c = 160 \<or> c = 5760 \<or>
      (8192 \<le> c \<and> c \<le> 8202) \<or> c = 8232 \<or> c = 8233 \<or> c = 8239 \<or> c = 8287 \<or> c = 12288)"

definition strip :: "pystr \<Rightarrow> pystr" where
  "strip s = rev (dropWhile isspace (rev (dropWhile isspace s)))"

text \<open>
  The characters \<open>sanitize_title\<close> drops, \<open>< > : " / \ | ? *\<close>, by code point. Both
  exporters use the same set.
\<close>

definition forbidden_chars :: "nat list" where
  "forbidden_chars = [60, 62, 58, 34, 47, 92, 124, 63, 42]"

definition sanitize_title :: "pystr \<Rightarrow> pystr" where
  "sanitize_title t = strip (filter (\<lambda>c. c \<notin> set forbidden_chars) t)"

text \<open>\<open>title.replace('"', '\\"')\<close>: a backslash before every double quote.\<close>

fun escape_quotes :: "pystr \<Rightarrow> pystr" where
  "escape_quotes [] = []"
| "escape_quotes (c # cs) = (if c = 34 then 92 # 34 # escape_quotes cs else c # escape_quotes cs)"

text \<open>
  \<open>int(x)\<close>. A string is stripped, may carry a sign, and is a run of ASCII digits in
  which single underscores may stand between digits; decimal digits of other
  scripts, which Python also reads, are not modelled. \<open>None\<close>, a list and a dict are
  a \<open>TypeError\<close>.
\<close>

definition is_digit :: "nat \<Rightarrow> bool" where
  "is_digit c = (48 \<le> c \<and> c \<le> 57)"

fun parse_digits :: "pystr \<Rightarrow> int \<Rightarrow> int option" where
  "parse_digits [] acc = Some acc"
| "parse_digits (c # cs) acc =
     (if is_digit c then parse_digits cs (acc * 10 + (int c - 48))
      else if c = 95 \<and> cs \<noteq> [] \<and> is_digit (hd cs) then parse_digits cs acc
      else None)"

definition parse_unsigned :: "pystr \<Rightarrow> int option" where
  "parse_unsigned ds = (if ds \<noteq> [] \<and> is_digit (hd ds) then parse_digits ds 0 else None)"

definition int_of_str :: "pystr \<Rightarrow> int option" where
  "int_of_str s =
     (case strip s of
        [] \<Rightarrow> None
      | c # cs \<Rightarrow>
          if c = 43 then parse_unsigned cs
          else if c = 45 then map_option uminus (parse_unsigned cs)
          else parse_unsigned (c # cs))"

fun py_int :: "jval \<Rightarrow> exn + int" where
  "py_int (JInt i) = Inr i"
| "py_int (JBool b) = Inr (if b then 1 else 0)"
| "py_int (JStr s) = (case int_of_str s of Some i \<Rightarrow> Inr i | None \<Rightarrow> Inl ValueError)"
| "py_int _ = Inl TypeError"

text \<open>
  A \<open>datetime\<close>, and the two \<open>strftime\<close> formats of the scripts. \<open>%Y\<close> prints the year's
  digits as they are (glibc does not pad a year below 1000).
\<close>

record datetime =
  year :: int
  month :: int
  day :: int
  hour :: int
  minute :: int
  second :: int

definition pad2 :: "int \<Rightarrow> pystr" where
  "pad2 n = (if 0 \<le> n \<and> n < 10 then 48 # str_int n else str_int n)"

definition strftime_Ymd :: "datetime \<Rightarrow> pystr" where
  "strftime_Ymd dt = str_int (year dt) @ ascii ''-'' @ pad2 (month dt) @ ascii ''-'' @ pad2 (day dt)"

definition strftime_YmdHMS :: "datetime \<Rightarrow> pystr" where
  "strftime_YmdHMS dt =
     strftime_Ymd dt @ ascii '' '' @ pad2 (hour dt) @ ascii '':'' @ pad2 (minute dt) @ ascii '':''
       @ pad2 (second dt)"

text \<open>
  \<open>datetime.fromtimestamp\<close> converts to local time, so its result depends on the time
  zone of the machine. \<open>fromtimestamp_fixed off\<close> is the function in a zone that
  is always \<open>off\<close> seconds east of UTC: the civil date of the day number
  \<open>(ts + off) div 86400\<close> by the usual era arithmetic of the proleptic Gregorian
  calendar. A year outside 1..9999 is a \<open>ValueError\<close>.
\<close>

definition civil_from_days :: "int \<Rightarrow> int \<times> int \<times> int" where
  "civil_from_days z0 =
     (let z = z0 + 719468;
          era = z div 146097;
          doe = z mod 146097;
          yoe = (doe - doe div 1460 + doe div 36524 - doe div 146096) div 365;
          doy = doe - (365 * yoe + yoe div 4 - yoe div 100);
          mp = (5 * doy + 2) div 153;
          d = doy - (153 * mp + 2) div 5 + 1;
          m = (if mp < 10 then mp + 3 else mp - 9);
          y = yoe + era * 400 + (if m \<le> 2 then 1 else 0)
      in (y, m, d))"

definition fromtimestamp_fixed :: "int \<Rightarrow> int \<Rightarrow> exn + datetime" where
  "fromtimestamp_fixed off ts =
     (let t = ts + off; secs = t mod 86400 in
      case civil_from_days (t div 86400) of
        (y, m, d) \<Rightarrow>
          if y < 1 \<or> 9999 < y then Inl ValueError
          else Inr \<lparr> year = y, month = m, day = d, hour = secs div 3600,
                     minute = (secs mod 3600) div 60, second = secs mod 60 \<rparr>)"

text \<open>\<open>s.split(sep)\<close> for a separator that is not empty.\<close>

function split_str :: "pystr \<Rightarrow> pystr \<Rightarrow> pystr list" where
  "split_str sep [] = [[]]"
| "split_str sep (c # cs) =
     (if sep \<noteq> [] \<and> take (length sep) (c # cs) = sep
      then [] # split_str sep (drop (length sep) (c # cs))
      else (case split_str sep cs of p # ps \<Rightarrow> (c # p) # ps | [] \<Rightarrow> [[c]]))"
  by pat_completeness auto
termination
  by (relation "measure (\<lambda>(sep, s). length s)") auto

section \<open>The export orchestrator (export\_instapaper\_to\_obsidian.py)\<close>

text \<open>
  Everything outside the program is a field of the environment. An item is
  processed in a slot: the number of the fetch cycle and the position of the item
  in its batch. The remote answers a list request per cycle, payload and attempt,
  and a text request per slot, identifier and attempt. \<open>markdownify\<close>,
  \<open>fromtimestamp\<close> and \<open>now\<close> are the library calls \<open>md\<close>, \<open>datetime.fromtimestamp\<close> and
  \<open>datetime.now\<close>; \<open>str_of\<close> is \<open>str\<close> of a list or a dict. \<open>write_file\<close> tells what
  \<open>open(out, "w")\<close> followed by \<open>f.write\<close> does at a path with a content.
\<close>

type_synonym slot = "nat \<times> nat"

datatype write_outcome = Written | OpenFailed | WriteFailedAfterOpen pystr

record env =
  FOLDER_KEY :: pystr
  VAULT_PATH :: pystr
  oauth :: "exn option"
  post_folders :: "nat \<Rightarrow> outcome"
  post_list :: "nat \<Rightarrow> payload \<Rightarrow> nat \<Rightarrow> outcome"
  post_text :: "slot \<Rightarrow> int \<Rightarrow> nat \<Rightarrow> html_outcome"
  markdownify :: "pystr \<Rightarrow> exn + pystr"
  fromtimestamp :: "int \<Rightarrow> exn + datetime"
  now :: "slot \<Rightarrow> datetime"
  str_of :: "jval \<Rightarrow> pystr"
  write_file :: "slot \<Rightarrow> pystr \<Rightarrow> pystr \<Rightarrow> write_outcome"

text \<open>
  The state of a run: the set \<open>processed\<close> (a list without repetition, in insertion
  order; Python leaves the iteration order of a set open), \<open>count\<close>, the manifest
  file (\<open>None\<close> while it does not exist; the JSON document is kept as the list of
  identifiers that \<open>json.dumps(list(ids))\<close> writes and \<open>json.loads\<close> reads back), the
  files of the vault by path, and the paths whose write completed in this run.
\<close>

record state =
  processed :: "int list"
  count :: nat
  manifest_file :: "int list option"
  files :: "pystr \<rightharpoonup> pystr"
  written :: "pystr list"

definition set_add :: "int \<Rightarrow> int list \<Rightarrow> int list" where
  "set_add x xs = (if x \<in> set xs then xs else xs @ [x])"

definition load_manifest :: "int list option \<Rightarrow> int list" where
  "load_manifest mf = (case mf of None \<Rightarrow> [] | Some ids \<Rightarrow> remdups ids)"

definition save_manifest :: "state \<Rightarrow> state" where
  "save_manifest st = st\<lparr>manifest_file := Some (processed st)\<rparr>"

definition path_join :: "pystr \<Rightarrow> pystr \<Rightarrow> pystr" where
  "path_join dir name = dir @ ascii ''/'' @ name"

text \<open>\<open>str(v)\<close> as an f-string formats a value.\<close>

definition py_str :: "env \<Rightarrow> jval \<Rightarrow> pystr" where
  "py_str env v =
     (case v of
        JStr s \<Rightarrow> s
      | JInt i \<Rightarrow> str_int i
      | JNull \<Rightarrow> ascii ''None''
      | JBool b \<Rightarrow> (if b then ascii ''True'' else ascii ''False'')
      | _ \<Rightarrow> str_of env v)"

text \<open>
  The choice of the timestamp: \<open>time_saved\<close> when it is truthy, else \<open>time\<close> when it is
  truthy, else none; with the source label.
\<close>

definition opt_truthy :: "jval option \<Rightarrow> bool" where
  "opt_truthy v = (case v of None \<Rightarrow> False | Some x \<Rightarrow> truthy x)"

definition choose_timestamp :: "(pystr \<times> jval) list \<Rightarrow> jval option \<times> pystr" where
  "choose_timestamp kvs =
     (let time_saved_val = dict_get kvs ''time_saved''; time_val = dict_get kvs ''time'' in
      if opt_truthy time_saved_val then (time_saved_val, ascii ''original - time_saved'')
      else if opt_truthy time_val then (time_val, ascii ''original - time'')
      else (None, ascii ''fallback - missing''))"

text \<open>
  The label after a timestamp that does not convert:
  \<open>f"fallback - invalid format ({saved_date_source.split(' - ')[1]})"\<close>.
\<close>

definition invalid_format :: "pystr \<Rightarrow> pystr" where
  "invalid_format source =
     ascii ''fallback - invalid format ('' @ split_str (ascii '' - '') source ! 1 @ ascii '')''"

text \<open>The label when the current time is used: a label that does not start with
  \<open>fallback\<close> becomes \<open>fallback - unknown error\<close>.\<close>

definition ensure_fallback :: "pystr \<Rightarrow> pystr" where
  "ensure_fallback source =
     (if take 8 source = ascii ''fallback'' then source else ascii ''fallback - unknown error'')"

text \<open>
  The save date and its source label. \<open>int(...)\<close> and \<open>fromtimestamp\<close> are tried only on a
  chosen timestamp; a \<open>ValueError\<close> or \<open>TypeError\<close> of either falls back to the current
  time, any other exception leaves \<open>main\<close>.
\<close>

definition convert_timestamp :: "env \<Rightarrow> jval \<Rightarrow> exn + datetime option" where
  "convert_timestamp env v =
     (case py_int v of
        Inl e \<Rightarrow> Inr None
      | Inr i \<Rightarrow>
          (case fromtimestamp env i of
             Inr dt \<Rightarrow> Inr (Some dt)
           | Inl e \<Rightarrow> if is_ValueError e \<or> e = TypeError then Inr None else Inl e))"

definition resolve_date :: "env \<Rightarrow> slot \<Rightarrow> (pystr \<times> jval) list \<Rightarrow> exn + datetime \<times> pystr" where
  "resolve_date env sl kvs =
     (case choose_timestamp kvs of
        (ts, source) \<Rightarrow>
          (case (if opt_truthy ts then ts else None) of
             Some v \<Rightarrow>
               (case convert_timestamp env v of
                  Inl e \<Rightarrow> Inl e
                | Inr (Some dt) \<Rightarrow> Inr (dt, source)
                | Inr None \<Rightarrow> Inr (now env sl, ensure_fallback (invalid_format source)))
           | None \<Rightarrow> Inr (now env sl, ensure_fallback source)))"

text \<open>
  The title as \<open>sanitize_title\<close> and \<open>title.replace\<close> meet it. A string is the usual
  case. A list of strings or a dict passes \<open>sanitize_title\<close> (its generator iterates
  anything) and fails at \<open>title.replace\<close> with an \<open>AttributeError\<close>; anything else is a
  \<open>TypeError\<close> inside \<open>sanitize_title\<close>.
\<close>

datatype title_shape = StrTitle pystr | IterTitle | BadTitle

fun is_JStr :: "jval \<Rightarrow> bool" where
  "is_JStr (JStr s) = True"
| "is_JStr _ = False"

fun shape_of_title :: "jval \<Rightarrow> title_shape" where
  "shape_of_title (JStr s) = StrTitle s"
| "shape_of_title (JList xs) = (if list_all is_JStr xs then IterTitle else BadTitle)"
| "shape_of_title (JDict kvs) = IterTitle"
| "shape_of_title _ = BadTitle"

text \<open>The file name \<open>f"{saved} \<dots> {safe}.md"\<close> with \<open>safe = sanitize_title(title)[:80]\<close>;
  the separator between the spaces is EN DASH.\<close>

definition file_name :: "pystr \<Rightarrow> pystr \<Rightarrow> pystr" where
  "file_name saved title =
     saved @ ascii '' '' @ [EN_DASH] @ ascii '' '' @ take 80 (sanitize_title title) @ ascii ''.md''"

text \<open>The front matter lines \<open>fm\<close> of the exporter and the text written to the file.\<close>

definition front_matter :: "env \<Rightarrow> pystr \<Rightarrow> jval \<Rightarrow> int \<Rightarrow> pystr \<Rightarrow> pystr \<Rightarrow> pystr list" where
  "front_matter env title url bid saved source =
     [ascii ''---'',
      ascii ''title: '' @ [34] @ escape_quotes title @ [34],
      ascii ''original_url: '' @ [34] @ py_str env url @ [34],
      ascii ''instapaper_id: '' @ str_int bid,
      ascii ''date_saved: '' @ saved,
      ascii ''date_saved_source: '' @ source,
      ascii ''---'',
      []]"

definition document :: "pystr list \<Rightarrow> pystr \<Rightarrow> pystr" where
  "document fm mdt = join [10] fm @ mdt"

text \<open>The effect of the write on the state, up to and including the bookkeeping
  after it: only a completed write reaches \<open>processed.add(bid)\<close> and \<open>count += 1\<close>.\<close>

definition write_and_record :: "env \<Rightarrow> slot \<Rightarrow> int \<Rightarrow> pystr \<Rightarrow> pystr \<Rightarrow> state \<Rightarrow> state" where
  "write_and_record env sl bid out content st =
     (case write_file env sl out content of
        Written \<Rightarrow>
          st\<lparr>files := (files st)(out \<mapsto> content), written := written st @ [out],
             processed := set_add bid (processed st), count := Suc (count st)\<rparr>
      | OpenFailed \<Rightarrow> st
      | WriteFailedAfterOpen part \<Rightarrow> st\<lparr>files := (files st)(out \<mapsto> part)\<rparr>)"

text \<open>
  One turn of \<open>for bm in bms\<close>. The result is the exception that leaves \<open>main\<close>, if any,
  and the state. The order is the source's: the identifier, the membership test,
  the date, the file name, the fetch, the conversion, the header, the write.
\<close>

fun process_item :: "env \<Rightarrow> slot \<Rightarrow> jval \<Rightarrow> state \<Rightarrow> exn option \<times> state" where
  "process_item env sl (JDict kvs) st =
     (case dict_get kvs ''bookmark_id'' of
        None \<Rightarrow> (Some KeyError, st)
      | Some v \<Rightarrow>
          (case py_int v of
             Inl e \<Rightarrow> (Some e, st)
           | Inr bid \<Rightarrow>
               if bid \<in> set (processed st) then (None, st)
               else
                 (case resolve_date env sl kvs of
                    Inl e \<Rightarrow> (Some e, st)
                  | Inr (saved_dt, source) \<Rightarrow>
                      (case shape_of_title (dict_get_default kvs ''title'' (JStr (ascii ''Untitled''))) of
                         BadTitle \<Rightarrow> (Some TypeError, st)
                       | shape \<Rightarrow>
                           (let html = fetch_full_text (post_text env sl bid) in
                            if html = [] then (None, st\<lparr>processed := set_add bid (processed st)\<rparr>)
                            else
                              (case markdownify env html of
                                 Inl e \<Rightarrow> (Some e, st)
                               | Inr mdt \<Rightarrow>
                                   (case shape of
                                      StrTitle title \<Rightarrow>
                                        (let saved = strftime_Ymd saved_dt;
                                             out = path_join (VAULT_PATH env) (file_name saved title);
                                             url = dict_get_default kvs ''url'' (JStr (ascii ''URL_MISSING''));
                                             fm = front_matter env title url bid saved source
                                         in (None, write_and_record env sl bid out (document fm mdt) st))
                                    | _ \<Rightarrow> (Some AttributeError, st))))))))"
| "process_item env sl _ st = (Some TypeError, st)"

fun process_batch :: "env \<Rightarrow> nat \<Rightarrow> nat \<Rightarrow> jval list \<Rightarrow> state \<Rightarrow> exn option \<times> state" where
  "process_batch env k i [] st = (None, st)"
| "process_batch env k i (bm # bms) st =
     (case process_item env (k, i) bm st of
        (Some e, st') \<Rightarrow> (Some e, st')
      | (None, st') \<Rightarrow> process_batch env k (Suc i) bms st')"

text \<open>
  The loop \<open>while True\<close> of \<open>main\<close>, with fuel: \<open>None\<close> is a loop still running when the
  fuel is spent. It ends on a falsy batch (\<open>break\<close>) or on an exception; a truthy
  batch that is not a list raises a \<open>TypeError\<close> at its first element. After every
  batch the manifest is saved.
\<close>

fun sync_loop :: "env \<Rightarrow> jval \<Rightarrow> nat \<Rightarrow> nat \<Rightarrow> state \<Rightarrow> (exn option \<times> state) option" where
  "sync_loop env fid 0 k st = None"
| "sync_loop env fid (Suc fuel) k st =
     (case fetch_bookmarks (post_list env k) (processed st) fid of
        Inl e \<Rightarrow> Some (Some e, st)
      | Inr bms \<Rightarrow>
          if \<not> truthy bms then Some (None, st)
          else
            (case bms of
               JList items \<Rightarrow>
                 (case process_batch env k 0 items st of
                    (Some e, st') \<Rightarrow> Some (Some e, st')
                  | (None, st') \<Rightarrow> sync_loop env fid fuel (Suc k) (save_manifest st'))
             | _ \<Rightarrow> Some (Some TypeError, st)))"

text \<open>
  \<open>main\<close> from the manifest file and the vault it finds: the session, the folder,
  the manifest, the loop, the final save. An exception leaves the state as it is at
  that point, without the final save.
\<close>

definition main :: "env \<Rightarrow> nat \<Rightarrow> int list option \<Rightarrow> (pystr \<rightharpoonup> pystr) \<Rightarrow> (exn option \<times> state) option" where
  "main env fuel mf fs =
     (let st0 = \<lparr>processed = [], count = 0, manifest_file = mf, files = fs, written = []\<rparr> in
      case oauth env of
        Some e \<Rightarrow> Some (Some e, st0)
      | None \<Rightarrow>
          (case fetch_folders (post_folders env) of
             Inl e \<Rightarrow> Some (Some e, st0)
           | Inr folders \<Rightarrow>
               (case sync_loop env (resolve_folder folders (FOLDER_KEY env)) fuel 0
                       (st0\<lparr>processed := load_manifest mf\<rparr>) of
                  None \<Rightarrow> None
                | Some (Some e, st) \<Rightarrow> Some (Some e, st)
                | Some (None, st) \<Rightarrow> Some (None, save_manifest st))))"

section \<open>The bulk importer (bulk\_import\_instapaper\_from\_csv.py)\<close>

text \<open>
  One archived bookmark as \<open>load_archived_bookmarks_from_csv\<close> builds it from a row of
  the CSV export; the reading of the CSV file is not modelled, \<open>main\<close> starts from
  the list of these records.
\<close>

record bm_data =
  bm_id :: int
  bm_title :: pystr
  bm_url :: pystr
  bm_description :: pystr
  bm_author :: pystr
  bm_words :: int
  bm_folder :: pystr
  saved_time_dt :: "datetime option"
  published_time_dt :: "datetime option"
  archived_time_dt :: "datetime option"

text \<open>
  The environment of the importer; an item is known by its position in the list.
  \<open>exn_message\<close> is \<open>str(e)\<close> of an exception. The retry engine of the importer is the
  text of \<open>retry_request_html\<close> above, with the same default constants.
\<close>

record bulk_env =
  BULK_VAULT_PATH :: pystr
  bulk_oauth :: "exn option"
  bulk_post_text :: "nat \<Rightarrow> int \<Rightarrow> nat \<Rightarrow> html_outcome"
  bulk_markdownify :: "pystr \<Rightarrow> exn + pystr"
  exn_message :: "exn \<Rightarrow> pystr"
  bulk_write_file :: "nat \<Rightarrow> pystr \<Rightarrow> pystr \<Rightarrow> write_outcome"

text \<open>
  The manifest is a dict from \<open>str(bid)\<close> to an entry, in memory and as the JSON
  document on disk (\<open>None\<close> while the file does not exist). \<open>d[k] = v\<close> replaces the
  value of a key in place and appends a new key.
\<close>

record bulk_state =
  manifest :: "(pystr \<times> jval) list"
  new_count :: nat
  processed_in_session :: nat
  bulk_manifest_file :: "(pystr \<times> jval) list option"
  vault_files :: "pystr \<rightharpoonup> pystr"
  files_written :: "pystr list"

fun dict_set :: "(pystr \<times> jval) list \<Rightarrow> pystr \<Rightarrow> jval \<Rightarrow> (pystr \<times> jval) list" where
  "dict_set [] k v = [(k, v)]"
| "dict_set ((k', v') # kvs) k v = (if k' = k then (k, v) # kvs else (k', v') # dict_set kvs k v)"

definition bulk_save_manifest :: "bulk_state \<Rightarrow> bulk_state" where
  "bulk_save_manifest st = st\<lparr>bulk_manifest_file := Some (manifest st)\<rparr>"

text \<open>\<open>fetch_full_text\<close> of the importer returns the text and no error, or the empty
  string and the message of the exception.\<close>

definition bulk_fetch_full_text :: "bulk_env \<Rightarrow> (nat \<Rightarrow> html_outcome) \<Rightarrow> pystr \<times> pystr option" where
  "bulk_fetch_full_text env post =
     (case fst (retry_request_html post) of
        Inr html \<Rightarrow> (html, None)
      | Inl e \<Rightarrow> ([], Some (exn_message env e)))"

text \<open>The three entries the importer records.\<close>

definition fetch_failed_entry :: "pystr \<Rightarrow> pystr option \<Rightarrow> jval" where
  "fetch_failed_entry title err =
     JDict [(ascii ''status'', JStr (ascii ''text_fetch_failed'')),
            (ascii ''title'', JStr title),
            (ascii ''error_message'',
             JStr (case err of
                     None \<Rightarrow> ascii ''No HTML content returned, no specific error captured.''
                   | Some m \<Rightarrow>
                       if m = [] then ascii ''No HTML content returned, no specific error captured.''
                       else m))]"

definition conversion_failed_entry :: "pystr \<Rightarrow> pystr \<Rightarrow> jval" where
  "conversion_failed_entry title msg =
     JDict [(ascii ''status'', JStr (ascii ''markdown_conversion_failed'')),
            (ascii ''title'', JStr title),
            (ascii ''error_message'', JStr msg)]"

definition success_entry :: "pystr \<Rightarrow> pystr \<Rightarrow> jval" where
  "success_entry title path =
     JDict [(ascii ''status'', JStr (ascii ''success'')),
            (ascii ''title'', JStr title),
            (ascii ''file_path'', JStr path)]"

text \<open>The date of the file name: the archived time, else the saved time, else a
  fixed text.\<close>

definition filename_date_str :: "bm_data \<Rightarrow> pystr" where
  "filename_date_str bm =
     (case archived_time_dt bm of
        Some dt \<Rightarrow> strftime_Ymd dt
      | None \<Rightarrow>
          (case saved_time_dt bm of
             Some dt \<Rightarrow> strftime_Ymd dt
           | None \<Rightarrow> ascii ''YYYY-MM-DD_unknown_date''))"

text \<open>The front matter of the importer: the fixed lines, then a line for every field
  that is present.\<close>

definition quoted_line :: "string \<Rightarrow> pystr \<Rightarrow> pystr list" where
  "quoted_line key text_value =
     (if text_value = [] then [] else [ascii key @ ascii '': '' @ [34] @ escape_quotes text_value @ [34]])"

definition frontmatter :: "bm_data \<Rightarrow> pystr list" where
  "frontmatter bm =
     [ascii ''---'',
      ascii ''title: '' @ [34] @ escape_quotes (bm_title bm) @ [34],
      ascii ''original_url: '' @ [34] @ bm_url bm @ [34],
      ascii ''instapaper_id: '' @ str_int (bm_id bm)]
     @ (case saved_time_dt bm of
          None \<Rightarrow> []
        | Some dt \<Rightarrow> [ascii ''date_saved: '' @ strftime_Ymd dt, ascii ''saved_time: '' @ strftime_YmdHMS dt])
     @ quoted_line ''description'' (bm_description bm)
     @ quoted_line ''author'' (bm_author bm)
     @ (if bm_words bm = 0 then [] else [ascii ''words: '' @ str_int (bm_words bm)])
     @ (case published_time_dt bm of
          None \<Rightarrow> []
        | Some dt \<Rightarrow> [ascii ''published_time: '' @ strftime_YmdHMS dt])
     @ (case archived_time_dt bm of
          None \<Rightarrow> []
        | Some dt \<Rightarrow>
            [ascii ''archived_time: '' @ strftime_YmdHMS dt, ascii ''date_archived: '' @ strftime_Ymd dt])
     @ quoted_line ''folder'' (bm_folder bm)
     @ [ascii ''---'', []]"

definition output_file_path :: "bulk_env \<Rightarrow> bm_data \<Rightarrow> pystr" where
  "output_file_path env bm =
     path_join (BULK_VAULT_PATH env) (file_name (filename_date_str bm) (bm_title bm))"

text \<open>The write and the bookkeeping after it: only a completed write records the
  success entry, and every twentieth processed item saves the manifest.\<close>

definition bulk_write_and_record :: "bulk_env \<Rightarrow> nat \<Rightarrow> bm_data \<Rightarrow> pystr \<Rightarrow> bulk_state \<Rightarrow> bulk_state" where
  "bulk_write_and_record env i bm md_content st =
     (let out = output_file_path env bm; content = document (frontmatter bm) md_content in
      case bulk_write_file env i out content of
        Written \<Rightarrow>
          (let st1 = st\<lparr>vault_files := (vault_files st)(out \<mapsto> content),
                        files_written := files_written st @ [out],
                        manifest := dict_set (manifest st) (str_int (bm_id bm))
                                      (success_entry (bm_title bm) out),
                        new_count := Suc (new_count st),
                        processed_in_session := Suc (processed_in_session st)\<rparr>
           in if processed_in_session st1 mod 20 = 0 then bulk_save_manifest st1 else st1)
      | OpenFailed \<Rightarrow> st
      | WriteFailedAfterOpen part \<Rightarrow> st\<lparr>vault_files := (vault_files st)(out \<mapsto> part)\<rparr>)"

text \<open>
  One turn of \<open>for bm_data in archived_bookmarks\<close>. An item whose key is in the
  manifest is skipped (the log line reads \<open>.get('status')\<close> of its entry, an
  \<open>AttributeError\<close> when the entry is not a dict). A failed fetch and a failed
  conversion are recorded; a failed write is not.
\<close>

definition bulk_item :: "bulk_env \<Rightarrow> nat \<Rightarrow> bm_data \<Rightarrow> bulk_state \<Rightarrow> exn option \<times> bulk_state" where
  "bulk_item env i bm st =
     (let bid_str = str_int (bm_id bm) in
      case map_of (manifest st) bid_str of
        Some (JDict kvs) \<Rightarrow> (None, st)
      | Some _ \<Rightarrow> (Some AttributeError, st)
      | None \<Rightarrow>
          (case bulk_fetch_full_text env (bulk_post_text env i (bm_id bm)) of
             (html_content, fetch_error_msg) \<Rightarrow>
               if html_content = [] then
                 (let st1 = st\<lparr>manifest := dict_set (manifest st) bid_str
                                             (fetch_failed_entry (bm_title bm) fetch_error_msg),
                               processed_in_session := Suc (processed_in_session st)\<rparr>
                  in (None, if processed_in_session st1 mod 50 = 0 then bulk_save_manifest st1 else st1))
               else
                 (case bulk_markdownify env html_content of
                    Inl e \<Rightarrow>
                      (None, st\<lparr>manifest := dict_set (manifest st) bid_str
                                               (conversion_failed_entry (bm_title bm) (exn_message env e)),
                                 processed_in_session := Suc (processed_in_session st)\<rparr>)
                  | Inr md_content \<Rightarrow> (None, bulk_write_and_record env i bm md_content st))))"

fun bulk_loop :: "bulk_env \<Rightarrow> nat \<Rightarrow> bm_data list \<Rightarrow> bulk_state \<Rightarrow> exn option \<times> bulk_state" where
  "bulk_loop env i [] st = (None, st)"
| "bulk_loop env i (bm # bms) st =
     (case bulk_item env i bm st of
        (Some e, st') \<Rightarrow> (Some e, st')
      | (None, st') \<Rightarrow> bulk_loop env (Suc i) bms st')"

text \<open>
  \<open>main\<close> of the importer from the manifest file and the vault it finds: it returns
  without saving when the CSV gave no archived bookmark, and saves after the loop
  otherwise.
\<close>

definition bulk_main ::
  "bulk_env \<Rightarrow> bm_data list \<Rightarrow> (pystr \<times> jval) list option \<Rightarrow> (pystr \<rightharpoonup> pystr) \<Rightarrow> exn option \<times> bulk_state" where
  "bulk_main env archived_bookmarks mf fs =
     (let st0 = \<lparr>manifest = [], new_count = 0, processed_in_session = 0, bulk_manifest_file = mf,
                 vault_files = fs, files_written = []\<rparr>
      in case bulk_oauth env of
           Some e \<Rightarrow> (Some e, st0)
         | None \<Rightarrow>
             (let st1 = st0\<lparr>manifest := (case mf of None \<Rightarrow> [] | Some m \<Rightarrow> m)\<rparr> in
              if archived_bookmarks = [] then (None, st1)
              else
                (case bulk_loop env 0 archived_bookmarks st1 of
                   (Some e, st) \<Rightarrow> (Some e, st)
                 | (None, st) \<Rightarrow> (None, bulk_save_manifest st))))"

text \<open>
  An outcome record as the ledger file describes it: a dict with a status tag and a
  title, and with an error message for the two failures or a file path for a success.
\<close>

fun is_str :: "jval option \<Rightarrow> bool" where
  "is_str (Some (JStr s)) = True"
| "is_str _ = False"

definition outcome_record :: "jval \<Rightarrow> bool" where
  "outcome_record v =
     (case v of
        JDict kvs \<Rightarrow>
          is_str (dict_get kvs ''title'') \<and>
          ((dict_get kvs ''status'' = Some (JStr (ascii ''success'')) \<and> is_str (dict_get kvs ''file_path''))
           \<or> (dict_get kvs ''status'' = Some (JStr (ascii ''text_fetch_failed''))
               \<and> is_str (dict_get kvs ''error_message''))
           \<or> (dict_get kvs ''status'' = Some (JStr (ascii ''markdown_conversion_failed''))
               \<and> is_str (dict_get kvs ''error_message'')))
      | _ \<Rightarrow> False)"

definition is_success :: "jval \<Rightarrow> bool" where
  "is_success v =
     (case v of JDict kvs \<Rightarrow> dict_get kvs ''status'' = Some (JStr (ascii ''success'')) | _ \<Rightarrow> False)"

section \<open>A concrete environment\<close>

text \<open>
  An environment to run the exporter in: the zone is \<open>off\<close> seconds east of UTC, the
  list endpoint answers cycle \<open>k\<close> and a payload with status 200 and the JSON value
  \<open>remote k p\<close>, every text request is answered with status 200 and \<open>html\<close>,
  \<open>markdownify\<close> returns its input, the clock reads 2024-01-02 03:04:05, and every
  write does \<open>w\<close>.
\<close>

definition example_now :: datetime where
  "example_now = \<lparr>year = 2024, month = 1, day = 2, hour = 3, minute = 4, second = 5\<rparr>"

definition example_env :: "int \<Rightarrow> (nat \<Rightarrow> payload \<Rightarrow> jval) \<Rightarrow> pystr \<Rightarrow> write_outcome \<Rightarrow> env" where
  "example_env off remote html w =
     \<lparr> FOLDER_KEY = ascii ''archive'', VAULT_PATH = ascii ''/vault'', oauth = None,
       post_folders = (\<lambda>a. Response 200 (Json (JList []))),
       post_list = (\<lambda>k p a. Response 200 (Json (remote k p))),
       post_text = (\<lambda>sl bid a. HResponse 200 html),
       markdownify = (\<lambda>h. Inr h),
       fromtimestamp = fromtimestamp_fixed off,
       now = (\<lambda>sl. example_now),
       str_of = (\<lambda>v. []),
       write_file = (\<lambda>sl out content. w) \<rparr>"

text \<open>The item of the specification's scenario: identifier 42, title \<open>A "Quoted" Title\<close>,
  saved at 1700000000.\<close>

definition quoted_title :: pystr where
  "quoted_title = ascii ''A '' @ [34] @ ascii ''Quoted'' @ [34] @ ascii '' Title''"

definition quoted_item :: "(pystr \<times> jval) list" where
  "quoted_item =
     [(ascii ''bookmark_id'', JInt 42), (ascii ''title'', JStr quoted_title),
      (ascii ''time_saved'', JInt 1700000000)]"


text \<open>
  Three remotes. \<open>stuck_remote\<close> ignores the exclusion hint and answers every list
  request with the same batch of one item; \<open>one_item_remote\<close> holds the same item and
  leaves it out once the hint names it; \<open>empty_remote\<close> holds nothing.
\<close>

definition bookmarks_response :: "jval list \<Rightarrow> jval" where
  "bookmarks_response items = JDict [(ascii ''bookmarks'', JList items)]"

definition stuck_remote :: "nat \<Rightarrow> payload \<Rightarrow> jval" where
  "stuck_remote k p = bookmarks_response [JDict quoted_item]"

definition one_item_remote :: "nat \<Rightarrow> payload \<Rightarrow> jval" where
  "one_item_remote k p =
     bookmarks_response (if have_param p = Some (ascii ''42'') then [] else [JDict quoted_item])"




text \<open>An environment and an archived bookmark for the importer: every text request
  is answered with status 200 and \<open>html\<close>, the conversion returns its input, every
  write does \<open>w\<close>.\<close>

definition example_bulk_env :: "pystr \<Rightarrow> write_outcome \<Rightarrow> bulk_env" where
  "example_bulk_env html w =
     \<lparr> BULK_VAULT_PATH = ascii ''/vault'', bulk_oauth = None,
       bulk_post_text = (\<lambda>i bid a. HResponse 200 html),
       bulk_markdownify = (\<lambda>h. Inr h),
       exn_message = (\<lambda>e. ascii ''error''),
       bulk_write_file = (\<lambda>i out content. w) \<rparr>"

definition example_bm :: bm_data where
  "example_bm =
     \<lparr> bm_id = 42, bm_title = quoted_title, bm_url = ascii ''https://example.com/a'',
       bm_description = [], bm_author = [], bm_words = 0, bm_folder = ascii ''Archive'',
       saved_time_dt = Some example_now, published_time_dt = None, archived_time_dt = None \<rparr>"

definition empty_bulk_state :: bulk_state where
  "empty_bulk_state =
     \<lparr>manifest = [], new_count = 0, processed_in_session = 0, bulk_manifest_file = None,
      vault_files = Map.empty, files_written = []\<rparr>"

section \<open>Properties of the retry engine\<close>

lemma attempt_once_503: "attempt_once (Response 503 b) = Inl (HTTPError (Some 503))"
  by (simp add: raise_for_status_def)

lemma retry_request_unfold: "retry_request fn = retry_attempts fn (Suc 4) 1 1 None"
  by (simp add: retry_request_def MAX_RETRIES_def)

text \<open>
  Claim C4. A wrapped call that answers HTTP 503 at every invocation is invoked
  exactly \<open>MAX_RETRIES\<close> = 5 times, at the attempts 1 to 5; the engine then raises the
  last error, the \<open>HTTPError\<close> of status 503. It sleeps between the attempts only,
  first for 1 time unit and then each time for \<open>BACKOFF_FACTOR\<close> times the delay
  before.
\<close>

theorem retry_cap_503:
  assumes "\<forall>a. \<exists>b. fn a = Response 503 b"
  shows "fst (retry_request fn) = Inl (HTTPError (Some 503))
       \<and> calls (snd (retry_request fn)) = [1, 2, 3, 4, 5]
       \<and> length (calls (snd (retry_request fn))) = MAX_RETRIES
       \<and> sleeps (snd (retry_request fn)) =
           [1, 1 * BACKOFF_FACTOR, 1 * BACKOFF_FACTOR * BACKOFF_FACTOR,
            1 * BACKOFF_FACTOR * BACKOFF_FACTOR * BACKOFF_FACTOR]"
proof -
  have a: "\<And>a. attempt_once (fn a) = Inl (HTTPError (Some 503))"
    using assms attempt_once_503 by metis
  show ?thesis
    by (simp add: retry_request_def MAX_RETRIES_def eval_nat_numeral a caught_def)
qed

theorem retry_cap_503_witness:
  "fst (retry_request (\<lambda>_. Response 503 NotJson)) = Inl (HTTPError (Some 503))
   \<and> calls (snd (retry_request (\<lambda>_. Response 503 NotJson))) = [1, 2, 3, 4, 5]
   \<and> sleeps (snd (retry_request (\<lambda>_. Response 503 NotJson))) = [1, 2, 4, 8]"
  using retry_cap_503 [of "\<lambda>_. Response 503 NotJson"] by (simp add: BACKOFF_FACTOR_def)

text \<open>
  Claim C10. When the wrapped call returns, at any attempt the engine reaches, a
  response with a 2xx status whose JSON body is a dict with \<open>'type'\<close> equal to
  \<open>'error'\<close>, the engine raises the API error at once: the trace of that attempt is the
  one call, with no sleep and no further call. At the first attempt this is the whole
  run of \<open>retry_request\<close>.
\<close>

theorem api_error_fatal:
  assumes "fn a = Response st (Json (JDict kvs))" and "200 \<le> st" and "st < 300"
    and "dict_get kvs ''type'' = Some (JStr (ascii ''error''))"
  shows "retry_attempts fn (Suc remaining) a delay last_error =
           (Inl (ApiError (dict_get_default kvs ''error_code'' (JStr (ascii ''N/A'')))
                          (dict_get_default kvs ''message'' (JStr (ascii ''No message'')))),
            [Call a])
       \<and> (a = 1 \<longrightarrow> retry_request fn =
           (Inl (ApiError (dict_get_default kvs ''error_code'' (JStr (ascii ''N/A'')))
                          (dict_get_default kvs ''message'' (JStr (ascii ''No message'')))),
            [Call 1]))"
proof -
  have att: "attempt_once (fn a) = Inl (api_error_of (JDict kvs))"
    using assms by (simp add: raise_for_status_def)
  have one: "\<And>r b d l. retry_attempts fn (Suc r) a d l = (Inl (api_error_of (JDict kvs)), [Call a])"
    by (simp add: att caught_def)
  have first: "a = 1 \<Longrightarrow> retry_request fn = (Inl (api_error_of (JDict kvs)), [Call 1])"
    unfolding retry_request_unfold using one [of 4 1 None] by simp
  from one [of remaining delay last_error] first show ?thesis
    by simp
qed

theorem api_error_fatal_witness:
  "retry_request (\<lambda>_. Response 200 (Json (JDict [(ascii ''type'', JStr (ascii ''error'')),
        (ascii ''error_code'', JInt 1040), (ascii ''message'', JStr (ascii ''Rate-limit exceeded''))])))
     = (Inl (ApiError (JInt 1040) (JStr (ascii ''Rate-limit exceeded''))), [Call 1])"
  using api_error_fatal [of "\<lambda>_. Response 200 (Json (JDict [(ascii ''type'', JStr (ascii ''error'')),
        (ascii ''error_code'', JInt 1040), (ascii ''message'', JStr (ascii ''Rate-limit exceeded''))]))"
      1 200 "[(ascii ''type'', JStr (ascii ''error'')),
        (ascii ''error_code'', JInt 1040), (ascii ''message'', JStr (ascii ''Rate-limit exceeded''))]" 4 1 None]
  by (simp add: dict_get_def dict_get_default_def ascii_def)

section \<open>Properties of the list request\<close>

declare str_nat.simps [simp del]








section \<open>Properties of the item transformer\<close>

lemma retry_request_html_unfold:
  "retry_request_html post = retry_html_attempts post (Suc 4) 1 1 None"
  by (simp add: retry_request_html_def MAX_RETRIES_def)

lemma retry_html_first:
  "html_attempt_once (post a) = Inr txt \<Longrightarrow>
   retry_html_attempts post (Suc r) a d l = (Inr txt, [Call a])"
  by simp

lemma fetch_full_text_200:
  assumes "post 1 = HResponse 200 txt"
  shows "fetch_full_text post = txt"
proof -
  have "html_attempt_once (post 1) = Inr txt" using assms by simp
  then have "retry_html_attempts post (Suc 4) 1 1 None = (Inr txt, [Call 1])"
    by (rule retry_html_first)
  then show ?thesis
    by (simp only: fetch_full_text_def retry_request_html_unfold fst_conv sum.case)
qed

lemma example_env_fetch:
  "fetch_full_text (post_text (example_env off remote html w) sl bid) = html"
  by (rule fetch_full_text_200) (simp add: example_env_def)

lemma invalid_format_time_saved:
  "ensure_fallback (invalid_format (ascii ''original - time_saved''))
     = ascii ''fallback - invalid format (time_saved)''"
  by (simp add: invalid_format_def ensure_fallback_def ascii_def)



lemma resolve_date_primary:
  assumes "dict_get kvs ''time_saved'' = Some v" and "truthy v"
  shows "resolve_date env sl kvs =
    (case convert_timestamp env v of
       Inl e \<Rightarrow> Inl e
     | Inr (Some dt) \<Rightarrow> Inr (dt, ascii ''original - time_saved'')
     | Inr None \<Rightarrow> Inr (now env sl, ascii ''fallback - invalid format (time_saved)''))"
  using assms
  by (simp add: resolve_date_def choose_timestamp_def opt_truthy_def invalid_format_time_saved
      split: sum.splits option.splits)






















lemma quoted_item_fields:
  "dict_get quoted_item ''bookmark_id'' = Some (JInt 42)"
  "dict_get_default quoted_item ''title'' (JStr (ascii ''Untitled'')) = JStr quoted_title"
  "dict_get_default quoted_item ''url'' (JStr (ascii ''URL_MISSING'')) = JStr (ascii ''URL_MISSING'')"
  "dict_get quoted_item ''time_saved'' = Some (JInt 1700000000)"
  by (simp_all add: dict_get_def dict_get_default_def quoted_item_def ascii_def)


lemma str_int_42: "str_int 42 = ascii ''42''"
  by (simp add: str_int_def str_nat.simps ascii_def)

lemma convert_timestamp_int:
  "fromtimestamp env i = Inr dt \<Longrightarrow> convert_timestamp env (JInt i) = Inr (Some dt)"
  by (simp add: convert_timestamp_def)

lemma resolve_date_quoted_item:
  assumes "fromtimestamp env 1700000000 = Inr dt"
  shows "resolve_date env sl quoted_item = Inr (dt, ascii ''original - time_saved'')"
proof -
  have t: "truthy (JInt 1700000000)" by simp
  show ?thesis
    by (simp only: resolve_date_primary [OF quoted_item_fields(4) t]
          convert_timestamp_int [OF assms] sum.case option.case)
qed




lemma example_env_fields:
  "fromtimestamp (example_env off remote html w) = fromtimestamp_fixed off"
  "markdownify (example_env off remote html w) h = Inr h"
  "write_file (example_env off remote html w) sl out content = w"
  "VAULT_PATH (example_env off remote html w) = ascii ''/vault''"
  "now (example_env off remote html w) sl = example_now"
  by (simp_all add: example_env_def)



section \<open>Properties of the export loop\<close>

lemma retry_first_ok:
  "attempt_once (fn a) = Inr d \<Longrightarrow> retry_attempts fn (Suc r) a dl l = (Inr d, [Call a])"
  by simp

lemma retry_request_200:
  assumes "\<not> is_api_error d"
  shows "retry_request (\<lambda>a. Response 200 (Json d)) = (Inr d, [Call 1])"
proof -
  have "attempt_once ((\<lambda>a. Response 200 (Json d)) 1) = Inr d"
    using assms by (simp add: raise_for_status_def)
  then have "retry_attempts (\<lambda>a. Response 200 (Json d)) (Suc 4) 1 1 None = (Inr d, [Call 1])"
    by (rule retry_first_ok)
  then show ?thesis by (simp only: retry_request_unfold)
qed

lemma bookmarks_response_no_error: "\<not> is_api_error (bookmarks_response items)"
  by (simp add: bookmarks_response_def dict_get_def ascii_def)

lemma normalize_bookmarks_response:
  "normalize_bookmarks (bookmarks_response items) = Inr (JList items)"
  by (simp add: bookmarks_response_def dict_get_def)

lemma fetch_bookmarks_example:
  assumes "remote k (bookmarks_payload hl fid) = bookmarks_response items"
  shows "fetch_bookmarks (post_list (example_env off remote html w) k) hl fid = Inr (JList items)"
proof -
  have "post_list (example_env off remote html w) k (bookmarks_payload hl fid)
          = (\<lambda>a. Response 200 (Json (bookmarks_response items)))"
    using assms by (simp add: example_env_def)
  then show ?thesis
    by (simp add: fetch_bookmarks_def retry_request_200 [OF bookmarks_response_no_error]
        normalize_bookmarks_response)
qed

lemma fromtimestamp_fixed_errors: "fromtimestamp_fixed off ts = Inl e \<Longrightarrow> e = ValueError"
  by (auto simp add: fromtimestamp_fixed_def Let_def split: prod.splits if_splits)

lemma resolve_date_example:
  "\<exists>dt source. resolve_date (example_env off remote html w) sl quoted_item = Inr (dt, source)"
proof (cases "fromtimestamp_fixed off 1700000000")
  case (Inl e)
  then have "e = ValueError" by (rule fromtimestamp_fixed_errors)
  with Inl have "convert_timestamp (example_env off remote html w) (JInt 1700000000) = Inr None"
    by (simp add: convert_timestamp_def example_env_fields)
  then show ?thesis
    using resolve_date_primary [OF quoted_item_fields(4), of "example_env off remote html w" sl]
    by simp
next
  case (Inr dt)
  then have "fromtimestamp (example_env off remote html w) 1700000000 = Inr dt"
    by (simp add: example_env_fields)
  then show ?thesis using resolve_date_quoted_item by blast
qed

lemma quoted_title_shape: "shape_of_title (JStr quoted_title) = StrTitle quoted_title"
  by simp

lemma process_item_example_no_exception:
  "fst (process_item (example_env off remote html w) sl (JDict quoted_item) st) = None"
proof -
  obtain dt source where
    r: "resolve_date (example_env off remote html w) sl quoted_item = Inr (dt, source)"
    using resolve_date_example by blast
  show ?thesis
    by (simp add: quoted_item_fields r example_env_fields example_env_fetch Let_def)
qed

lemma process_batch_example_no_exception:
  "fst (process_batch (example_env off remote html w) k i [JDict quoted_item] st) = None"
proof -
  obtain st' where "process_item (example_env off remote html w) (k, i) (JDict quoted_item) st = (None, st')"
    using process_item_example_no_exception [of off remote html w "(k, i)" st]
    by (metis prod.collapse)
  then show ?thesis by simp
qed

lemma stuck_loop:
  "sync_loop (example_env off stuck_remote html w) fid fuel k st = None"
proof (induction fuel arbitrary: k st)
  case 0
  show ?case by simp
next
  case (Suc fuel)
  have f: "fetch_bookmarks (post_list (example_env off stuck_remote html w) k) (processed st) fid
             = Inr (JList [JDict quoted_item])"
    by (rule fetch_bookmarks_example) (simp add: stuck_remote_def)
  obtain st' where
    b: "process_batch (example_env off stuck_remote html w) k 0 [JDict quoted_item] st = (None, st')"
    using process_batch_example_no_exception [of off stuck_remote html w k 0 st]
    by (metis prod.collapse)
  show ?case
    by (simp only: sync_loop.simps f b Suc.IH sum.case truthy.simps jval.case prod.case option.case)
       simp
qed

lemma example_env_setup:
  "oauth (example_env off remote html w) = None"
  "fetch_folders (post_folders (example_env off remote html w)) = Inr []"
  "FOLDER_KEY (example_env off remote html w) = ascii ''archive''"
proof -
  have "\<not> is_api_error (JList [])" by simp
  from retry_request_200 [OF this]
  show "fetch_folders (post_folders (example_env off remote html w)) = Inr []"
    by (simp add: fetch_folders_def example_env_def)
qed (simp_all add: example_env_def)

text \<open>
  Claim C2 against the code. The loop of \<open>main\<close> leaves on an empty batch only: it
  has no test for a batch without a new identifier and no bound on its iterations.
  Against a remote that ignores the exclusion hint and returns the same item at every
  request the run is still in the loop whatever fuel it is given, from any manifest
  and vault: after the first cycle the item is skipped, the manifest is saved, and the
  same request is sent again.
\<close>

theorem export_loop_never_done:
  "main (example_env off stuck_remote html w) fuel mf fs = None"
  by (simp add: main_def example_env_setup stuck_loop Let_def)










lemma sync_loop_break_immediately:
  assumes "fetch_bookmarks (post_list env k) (processed st) fid = Inr bms" and "\<not> truthy bms"
  shows "sync_loop env fid (Suc fuel) k st = Some (None, st)"
  using assms by simp





declare process_item.simps [simp del]

lemma sync_loop_continue:
  assumes "fetch_bookmarks (post_list env k) (processed st) fid = Inr (JList items)"
    and "items \<noteq> []"
    and "process_batch env k 0 items st = (None, st1)"
  shows "sync_loop env fid (Suc fuel) k st = sync_loop env fid fuel (Suc k) (save_manifest st1)"
  using assms by simp

declare sync_loop.simps [simp del]

lemma hint_42: "bookmarks_payload [42] fid = \<lparr>limit = MAX_LIMIT, folder_id = fid, have_param = Some (ascii ''42'')\<rparr>"
  by (simp add: bookmarks_payload_def str_int_42)

lemma one_item_remote_first:
  "one_item_remote k (bookmarks_payload [] fid) = bookmarks_response [JDict quoted_item]"
  by (simp add: one_item_remote_def bookmarks_payload_def)

lemma one_item_remote_second:
  "one_item_remote k (bookmarks_payload [42] fid) = bookmarks_response []"
  by (simp add: one_item_remote_def hint_42)

lemma process_quoted_item_empty_html:
  assumes "42 \<notin> set (processed st)"
  shows "process_item (example_env off remote [] w) sl (JDict quoted_item) st
           = (None, st\<lparr>processed := set_add 42 (processed st)\<rparr>)"
proof -
  obtain dt source where
    r: "resolve_date (example_env off remote [] w) sl quoted_item = Inr (dt, source)"
    using resolve_date_example by blast
  show ?thesis
    using assms
    by (simp add: process_item.simps quoted_item_fields r example_env_fetch Let_def)
qed



lemma failed_fetch_run_example:
  "main (example_env 0 one_item_remote [] Written) 2 None Map.empty =
     Some (None, \<lparr>processed = [42], count = 0, manifest_file = Some [42],
                  files = Map.empty, written = []\<rparr>)"
proof -
  let ?E = "example_env 0 one_item_remote [] Written"
  let ?fid = "resolve_folder [] (ascii ''archive'')"
  let ?st0 = "\<lparr>processed = [], count = 0, manifest_file = None, files = Map.empty, written = []\<rparr>"
  let ?st1 = "\<lparr>processed = [42], count = 0, manifest_file = None, files = Map.empty, written = []\<rparr>"
  have "fetch_bookmarks (post_list ?E 0) [] ?fid = Inr (JList [JDict quoted_item])"
    by (rule fetch_bookmarks_example) (rule one_item_remote_first)
  then have f0: "fetch_bookmarks (post_list ?E 0) (processed ?st0) ?fid
      = Inr (JList [JDict quoted_item])"
    by simp
  have f1: "fetch_bookmarks (post_list ?E 1) [42] ?fid = Inr (JList [])"
    by (rule fetch_bookmarks_example) (rule one_item_remote_second)
  have p: "process_item ?E (0, 0) (JDict quoted_item) ?st0 = (None, ?st1)"
    using process_quoted_item_empty_html [of ?st0 0 one_item_remote Written "(0, 0)"]
    by (simp add: set_add_def)
  have b: "process_batch ?E 0 0 [JDict quoted_item] ?st0 = (None, ?st1)"
    by (simp add: p)
  have f1': "fetch_bookmarks (post_list ?E (Suc 0)) (processed (save_manifest ?st1)) ?fid
      = Inr (JList [])"
    using f1 by (simp add: save_manifest_def)
  have nt: "\<not> truthy (JList [])" by simp
  from f1' nt
  have l1: "sync_loop ?E ?fid (Suc 0) (Suc 0) (save_manifest ?st1) = Some (None, save_manifest ?st1)"
    by (rule sync_loop_break_immediately)
  have l0: "sync_loop ?E ?fid (Suc (Suc 0)) 0 ?st0 = Some (None, save_manifest ?st1)"
    using sync_loop_continue [OF f0 _ b, of "Suc 0"] l1 by simp
  have two: "(2::nat) = Suc (Suc 0)" by simp
  have l0': "sync_loop ?E ?fid 2 0 ?st0 = Some (None, save_manifest ?st1)"
    using l0 by (simp only: two)
  show ?thesis
    by (simp add: main_def Let_def example_env_setup load_manifest_def l0' save_manifest_def)
qed


end
